theory Spec2Isabelle
  imports Main
begin

section \<open>Python strings\<close>

text \<open>
  Text is a HOL \<open>string\<close>, a list of characters read as ASCII code points. The
  string methods the server calls are written out for that range: \<open>strip\<close>,
  \<open>lower\<close>, \<open>capitalize\<close>, \<open>startswith\<close>, the substring test
  \<open>sub in s\<close>, \<open>s.split(sep)[0]\<close> and \<open>str\<close> of an integer. A character
  that is not an ASCII letter is left as it is by the case conversions.
\<close>

definition isspace :: "char \<Rightarrow> bool" where
  "isspace c = (let n = (of_char c :: nat) in (9 \<le> n \<and> n \<le> 13) \<or> (28 \<le> n \<and> n \<le> 32))"

definition strip :: "string \<Rightarrow> string" where
  "strip s = rev (dropWhile isspace (rev (dropWhile isspace s)))"

definition lower_char :: "char \<Rightarrow> char" where
  "lower_char c = (let n = (of_char c :: nat) in if 65 \<le> n \<and> n \<le> 90 then char_of (n + 32) else c)"

definition upper_char :: "char \<Rightarrow> char" where
  "upper_char c = (let n = (of_char c :: nat) in if 97 \<le> n \<and> n \<le> 122 then char_of (n - 32) else c)"

definition lower :: "string \<Rightarrow> string" where
  "lower s = map lower_char s"

fun capitalize :: "string \<Rightarrow> string" where
  "capitalize [] = []"
| "capitalize (c # cs) = upper_char c # map lower_char cs"

fun startswith :: "string \<Rightarrow> string \<Rightarrow> bool" where
  "startswith s [] = True"
| "startswith [] (p # ps) = False"
| "startswith (c # cs) (p # ps) = (c = p \<and> startswith cs ps)"

text \<open>\<open>contains sub s\<close> is Python's \<open>sub in s\<close> on strings.\<close>

fun contains :: "string \<Rightarrow> string \<Rightarrow> bool" where
  "contains sub [] = (sub = [])"
| "contains sub (c # cs) = (startswith (c # cs) sub \<or> contains sub cs)"

text \<open>\<open>split_first sep s\<close> is \<open>s.split(sep)[0]\<close>: the text before the first separator.\<close>

definition split_first :: "char \<Rightarrow> string \<Rightarrow> string" where
  "split_first sep s = takeWhile (\<lambda>c. c \<noteq> sep) s"

fun str_nat :: "nat \<Rightarrow> string" where
  "str_nat n = (if n < 10 then [char_of (48 + n)]
                else str_nat (n div 10) @ [char_of (48 + n mod 10)])"

declare str_nat.simps [simp del]

definition str_int :: "int \<Rightarrow> string" where
  "str_int i = (if i < 0 then CHR ''-'' # str_nat (nat (- i)) else str_nat (nat i))"

section \<open>JSON objects and responses\<close>

text \<open>
  A decoded JSON object with string fields is an association list; \<open>key in d\<close> and
  \<open>d.get(key, default)\<close> look it up. A response is the pair the handlers return:
  the JSON body and the HTTP status.
\<close>

type_synonym dict = "(string \<times> string) list"

definition has_key :: "dict \<Rightarrow> string \<Rightarrow> bool" where
  "has_key d k = (map_of d k \<noteq> None)"

definition dict_get :: "dict \<Rightarrow> string \<Rightarrow> string \<Rightarrow> string" where
  "dict_get d k dflt = (case map_of d k of None \<Rightarrow> dflt | Some v \<Rightarrow> v)"

datatype json = JNull | JStr string

type_synonym response = "(string \<times> json) list \<times> nat"

definition to_json :: "string option \<Rightarrow> json" where
  "to_json v = (case v of None \<Rightarrow> JNull | Some s \<Rightarrow> JStr s)"

text \<open>\<open>jsonify(body)\<close> returned without a status is an HTTP 200 response.\<close>

definition jsonify :: "(string \<times> json) list \<Rightarrow> response" where
  "jsonify b = (b, 200)"

section \<open>Request bodies and exceptions\<close>

text \<open>
  What \<open>request.json\<close> gives a handler. The accessor either aborts the request with an
  HTTP status of the framework's choosing (a body that is not JSON), or yields the decoded
  body: \<open>None\<close> for \<open>null\<close>, a boolean, a number, a string, a list, or an object with
  string fields. \<open>truthy\<close> is Python's truth value of the body, \<open>py_in\<close> is
  \<open>key in data\<close> and \<open>subscript\<close> is \<open>data[key]\<close>; the last two raise
  \<open>TypeError\<close> on a body that does not support them.
\<close>

datatype pyjson =
    PNone
  | PBool bool
  | PNum int
  | PStr string
  | PList "pyjson list"
  | PDict dict

datatype request_json = JsonAbort nat | JsonValue pyjson

datatype exn = HTTPException nat | TypeError | KeyError | AttributeError

abbreviation object_body :: "dict \<Rightarrow> request_json" where
  "object_body d \<equiv> JsonValue (PDict d)"

fun truthy :: "pyjson \<Rightarrow> bool" where
  "truthy PNone = False"
| "truthy (PBool b) = b"
| "truthy (PNum n) = (n \<noteq> 0)"
| "truthy (PStr s) = (s \<noteq> [])"
| "truthy (PList l) = (l \<noteq> [])"
| "truthy (PDict d) = (d \<noteq> [])"

fun py_in :: "string \<Rightarrow> pyjson \<Rightarrow> exn + bool" where
  "py_in k (PDict d) = Inr (has_key d k)"
| "py_in k (PList l) = Inr (PStr k \<in> set l)"
| "py_in k (PStr s) = Inr (contains k s)"
| "py_in k PNone = Inl TypeError"
| "py_in k (PBool b) = Inl TypeError"
| "py_in k (PNum n) = Inl TypeError"

fun subscript :: "pyjson \<Rightarrow> string \<Rightarrow> exn + string" where
  "subscript (PDict d) k = (case map_of d k of None \<Rightarrow> Inl KeyError | Some v \<Rightarrow> Inr v)"
| "subscript PNone k = Inl TypeError"
| "subscript (PBool b) k = Inl TypeError"
| "subscript (PNum n) k = Inl TypeError"
| "subscript (PStr s) k = Inl TypeError"
| "subscript (PList l) k = Inl TypeError"


section \<open>The backend health probe\<close>

text \<open>
  The outcome of \<open>requests.get("http://localhost:11434/api/tags")\<close>: the call raises
  \<open>ConnectionError\<close>, raises another exception with a message, or returns a response
  with a status code. Reading the response's JSON either raises (with a message) or gives
  an object whose \<open>models\<close> entry, when present, is a list of objects.
\<close>

datatype get_outcome =
    ConnectionError
  | OtherException string
  | Response int "string + dict list option"

definition cannot_connect_msg :: string where
  "cannot_connect_msg = ''Cannot connect to Ollama. Please make sure Ollama is running''"

definition model_missing_msg :: string where
  "model_missing_msg =
     ''Llama 3.2 1B model is not available. Please run '' @ [CHR 0x27] @
     ''ollama pull llama3.2:1b'' @ [CHR 0x27]"

text \<open>\<open>get_models\<close> is \<open>.get("models", [])\<close> on the decoded object.\<close>

definition get_models :: "dict list option \<Rightarrow> dict list" where
  "get_models ms = (case ms of None \<Rightarrow> [] | Some l \<Rightarrow> l)"

definition check_ollama :: "get_outcome \<Rightarrow> bool \<times> string option" where
  "check_ollama r =
     (case r of
        ConnectionError \<Rightarrow> (False, Some cannot_connect_msg)
      | OtherException e \<Rightarrow> (False, Some (''Error checking Ollama: '' @ e))
      | Response status_code js \<Rightarrow>
          if status_code = 200 then
            (case js of
               Inl e \<Rightarrow> (False, Some (''Error checking Ollama: '' @ e))
             | Inr ms \<Rightarrow>
                 let models = get_models ms;
                     llama3_models =
                       filter (\<lambda>model. contains ''llama3.2:1b'' (lower (dict_get model ''name'' []))) models
                 in if llama3_models \<noteq> [] then (True, None)
                    else (False, Some model_missing_msg))
          else (False, Some (''Ollama returned status code '' @ str_int status_code)))"

section \<open>The generation endpoints\<close>

text \<open>
  Each handler takes what it reads from the outside: the outcome \<open>tags\<close> of the
  probe's HTTP call made during this request, the backend client \<open>llm\<close> (given the
  model name and the prompt, \<open>Ollama(model=...).invoke(prompt)\<close> returns the generated
  text, \<open>Inr\<close>, or raises an exception whose message is \<open>Inl\<close>), and what
  \<open>request.json\<close> gives. The validation and the reads of \<open>data\<close> come before the
  handler's \<open>try\<close>, so an exception they raise escapes the handler (\<open>Inl\<close>).
\<close>

type_synonym backend = "string \<Rightarrow> string \<Rightarrow> string + string"

definition nl :: string where
  "nl = [CHR 0x0A]"

definition no_content_response :: response where
  "no_content_response = ([(''error'', JStr ''No email content provided'')], 400)"

definition summary_prompt :: "string \<Rightarrow> string" where
  "summary_prompt email_content =
     ''Please summarize the following email IN 40 WORDS OR LESS, concisely. The email might include html tags or other content. Do your best to interpret this, and provide only the summary without any leading text or explanation of what it is. I dont want an interpretation of the HTML, I was a summary of what a website with that HTML might be trying to tell me. LIMIT YOUR RESPONSE TO 40 WORDS. THIS IS CRITICAL.:''
     @ nl @ nl @ email_content @ nl @ nl @ ''Summary:''"

definition summarize_email :: "get_outcome \<Rightarrow> backend \<Rightarrow> request_json \<Rightarrow> exn + response" where
  "summarize_email tags llm request_json =
     (case request_json of
        JsonAbort code \<Rightarrow> Inl (HTTPException code)
      | JsonValue data \<Rightarrow>
          if \<not> truthy data then Inr no_content_response
          else
            (case py_in ''content'' data of
               Inl e \<Rightarrow> Inl e
             | Inr present \<Rightarrow>
                 if \<not> present then Inr no_content_response
                 else
                   (case subscript data ''content'' of
                      Inl e \<Rightarrow> Inl e
                    | Inr email_content \<Rightarrow>
                        (case data of
                           PDict d \<Rightarrow>
                             Inr
                              (let model_name = dict_get d ''model'' ''llama3.2:1b'';
                                   (ollama_running, ollama_error) = check_ollama tags
                               in if \<not> ollama_running then ([(''error'', to_json ollama_error)], 503)
                                  else
                                    (case llm model_name (summary_prompt email_content) of
                                       Inr response \<Rightarrow> ([(''summary'', JStr (strip response))], 200)
                                     | Inl error_msg \<Rightarrow>
                                         if contains ''Connection refused'' error_msg
                                         then ([(''error'', JStr cannot_connect_msg)], 503)
                                         else ([(''error'', JStr (''Error summarizing email: '' @ error_msg))], 500)))
                         | _ \<Rightarrow> Inl AttributeError))))"

text \<open>
  The names \<open>generate_reply\<close> computes before it builds the prompt: \<open>sender_name\<close>
  (whom the reply greets), \<open>user_name\<close> (who signs it) and \<open>greeting\<close>.
\<close>

definition sender_name_of :: "string \<Rightarrow> string \<Rightarrow> string" where
  "sender_name_of recipient_name sender =
     (let sender_name = (if recipient_name \<noteq> [] then recipient_name else [])
      in if sender_name = [] \<and> sender \<noteq> [] then
           (let name_match = strip (split_first (CHR ''<'') sender)
            in if name_match \<noteq> [] then name_match else sender_name)
         else sender_name)"

definition user_name_of :: "string \<Rightarrow> string" where
  "user_name_of user_email =
     (if user_email \<noteq> [] \<and> contains ''@'' user_email then
        (let user_name_match = split_first (CHR ''@'') user_email
         in if user_name_match \<noteq> [] then capitalize user_name_match else ''Me'')
      else ''Me'')"

definition greeting_of :: "string \<Rightarrow> string" where
  "greeting_of sender_name =
     (if sender_name \<noteq> [] then ''Hi '' @ sender_name @ '','' else ''Hello,'')"

definition reply_prompt ::
  "string \<Rightarrow> string \<Rightarrow> string \<Rightarrow> string \<Rightarrow> string \<Rightarrow> string \<Rightarrow> string \<Rightarrow> string" where
  "reply_prompt email_subject email_content sender user_email sender_name recipient_email user_name =
     ''Generate a professional and friendly reply to the following email. The reply should be contextual, addressing the main points or questions in the original email. Keep the tone professional but warm. Include a greeting and sign-off.''
     @ nl @ nl
     @ ''Original Email Subject: '' @ email_subject @ nl
     @ ''Original Email Content: '' @ email_content @ nl
     @ ''Original Email Sender: '' @ sender @ nl
     @ ''My Email Address: '' @ user_email @ nl
     @ ''Recipient Name: '' @ sender_name @ nl
     @ ''Recipient Email: '' @ recipient_email @ nl
     @ nl
     @ ''Your reply should:'' @ nl
     @ ''1. Acknowledge the email'' @ nl
     @ ''2. Address the main points or questions'' @ nl
     @ ''3. Be concise (3-5 sentences)'' @ nl
     @ ''4. End with a professional sign-off using my name ('' @ user_name @ '')'' @ nl
     @ nl
     @ ''Reply:''"

text \<open>The two post-processing steps applied to the trimmed generated text.\<close>

definition add_greeting :: "string \<Rightarrow> string \<Rightarrow> string" where
  "add_greeting greeting reply =
     (if \<not> startswith reply ''Hi'' \<and> \<not> startswith reply ''Hello'' \<and> \<not> startswith reply ''Dear''
      then greeting @ nl @ nl @ reply else reply)"

definition add_signoff :: "string \<Rightarrow> string \<Rightarrow> string" where
  "add_signoff user_name reply =
     (if \<not> contains ''regards'' (lower reply) \<and> \<not> contains ''sincerely'' (lower reply)
         \<and> \<not> contains ''best'' (lower reply)
      then reply @ nl @ nl @ ''Best regards,'' @ nl @ user_name else reply)"

definition generate_reply :: "get_outcome \<Rightarrow> backend \<Rightarrow> request_json \<Rightarrow> exn + response" where
  "generate_reply tags llm request_json =
     (case request_json of
        JsonAbort code \<Rightarrow> Inl (HTTPException code)
      | JsonValue data \<Rightarrow>
          if \<not> truthy data then Inr no_content_response
          else
            (case py_in ''emailContent'' data of
               Inl e \<Rightarrow> Inl e
             | Inr present \<Rightarrow>
                 if \<not> present then Inr no_content_response
                 else
                   (case subscript data ''emailContent'' of
                      Inl e \<Rightarrow> Inl e
                    | Inr email_content \<Rightarrow>
                        (case data of
                           PDict d \<Rightarrow>
                             Inr
                              (let email_subject = dict_get d ''emailSubject'' [];
                                   sender = dict_get d ''sender'' [];
                                   user_email = dict_get d ''userEmail'' ''user@example.com'';
                                   recipient_name = dict_get d ''recipientName'' [];
                                   recipient_email = dict_get d ''recipientEmail'' [];
                                   model_name = dict_get d ''model'' ''llama3.2:1b'';
                                   (ollama_running, ollama_error) = check_ollama tags
                               in if \<not> ollama_running then ([(''error'', to_json ollama_error)], 503)
                                  else
                                    (let sender_name = sender_name_of recipient_name sender;
                                         user_name = user_name_of user_email;
                                         greeting = greeting_of sender_name;
                                         prompt = reply_prompt email_subject email_content sender user_email
                                                    sender_name recipient_email user_name
                                     in case llm model_name prompt of
                                          Inr response \<Rightarrow>
                                            ([(''reply'', JStr (add_signoff user_name (add_greeting greeting (strip response))))], 200)
                                        | Inl error_msg \<Rightarrow>
                                            if contains ''Connection refused'' error_msg
                                            then ([(''error'', JStr cannot_connect_msg)], 503)
                                            else ([(''error'', JStr (''Error generating reply: '' @ error_msg))], 500)))
                         | _ \<Rightarrow> Inl AttributeError))))"

section \<open>The status endpoints\<close>

definition health_check :: "get_outcome \<Rightarrow> response" where
  "health_check tags =
     (let (ollama_running, ollama_error) = check_ollama tags
      in if ollama_running then
           jsonify [(''status'', JStr ''ok''),
                    (''message'', JStr ''Flask server is running''),
                    (''ollama_status'', JStr ''running'')]
         else
           ([(''status'', JStr ''warning''),
             (''message'', JStr ''Flask server is running, but Ollama has issues''),
             (''ollama_status'', JStr ''error''),
             (''ollama_error'', to_json ollama_error)], 200))"

definition ollama_status :: "get_outcome \<Rightarrow> response" where
  "ollama_status tags =
     (let (ollama_running, ollama_error) = check_ollama tags
      in if ollama_running then
           jsonify [(''status'', JStr ''ok''),
                    (''message'', JStr ''Ollama is running and Llama 3.2 1B model is available'')]
         else
           ([(''status'', JStr ''error''), (''message'', to_json ollama_error)], 503))"

section \<open>Notions the properties are stated with\<close>

text \<open>
  A case-insensitive substring test, \<open>sub\<close> within \<open>s\<close> after both are lowercased;
  whether a model list has an entry whose name contains the required identifier that way;
  and whether a request body lacks a field (a body that is not an object has no fields).
\<close>

definition contains_ci :: "string \<Rightarrow> string \<Rightarrow> bool" where
  "contains_ci sub s = contains (lower sub) (lower s)"

definition lists_required_model :: "dict list \<Rightarrow> bool" where
  "lists_required_model models =
     (\<exists>model \<in> set models. contains_ci ''llama3.2:1b'' (dict_get model ''name'' []))"

definition lacks_field :: "request_json \<Rightarrow> string \<Rightarrow> bool" where
  "lacks_field data k = (case data of JsonValue (PDict d) \<Rightarrow> map_of d k = None | _ \<Rightarrow> True)"


text \<open>
  What \<open>generate_reply\<close> resolves from a request body \<open>d\<close>: the name it greets, the
  name it signs with, and the backend call it makes; likewise the call of
  \<open>summarize_email\<close>.
\<close>

definition resolved_recipient :: "dict \<Rightarrow> string" where
  "resolved_recipient d = sender_name_of (dict_get d ''recipientName'' []) (dict_get d ''sender'' [])"

definition resolved_signer :: "dict \<Rightarrow> string" where
  "resolved_signer d = user_name_of (dict_get d ''userEmail'' ''user@example.com'')"

definition reply_generation :: "backend \<Rightarrow> dict \<Rightarrow> string \<Rightarrow> string + string" where
  "reply_generation llm d email_content =
     llm (dict_get d ''model'' ''llama3.2:1b'')
       (reply_prompt (dict_get d ''emailSubject'' []) email_content (dict_get d ''sender'' [])
          (dict_get d ''userEmail'' ''user@example.com'') (resolved_recipient d)
          (dict_get d ''recipientEmail'' []) (resolved_signer d))"

definition summary_generation :: "backend \<Rightarrow> dict \<Rightarrow> string \<Rightarrow> string + string" where
  "summary_generation llm d email_content =
     llm (dict_get d ''model'' ''llama3.2:1b'') (summary_prompt email_content)"

text \<open>
  Two backends for concrete runs: one answers every prompt with a fixed text, the other
  raises on every prompt with a fixed message.
\<close>

definition canned :: "string \<Rightarrow> backend" where
  "canned text model_name prompt = Inr text"

definition failing :: "string \<Rightarrow> backend" where
  "failing msg model_name prompt = Inl msg"

text \<open>The local part of an address: the text before the first \<open>@\<close>, when there is one.\<close>

definition local_part :: "string \<Rightarrow> string option" where
  "local_part e =
     (if CHR ''@'' \<in> set e \<and> takeWhile (\<lambda>c. c \<noteq> CHR ''@'') e \<noteq> []
      then Some (takeWhile (\<lambda>c. c \<noteq> CHR ''@'') e) else None)"

text \<open>
  The local part a request's own \<open>userEmail\<close> field gives: none when the field is
  absent.
\<close>

definition request_local_part :: "dict \<Rightarrow> string option" where
  "request_local_part d = (case map_of d ''userEmail'' of None \<Rightarrow> None | Some e \<Rightarrow> local_part e)"

text \<open>
  Whether a text begins with one of the greeting tokens, whether it contains one of the
  closing tokens in any letter case, and the sign-off block appended for a signer.
\<close>

definition has_greeting_token :: "string \<Rightarrow> bool" where
  "has_greeting_token s = (startswith s ''Hi'' \<or> startswith s ''Hello'' \<or> startswith s ''Dear'')"

definition has_closing_token :: "string \<Rightarrow> bool" where
  "has_closing_token s =
     (contains_ci ''regards'' s \<or> contains_ci ''sincerely'' s \<or> contains_ci ''best'' s)"

definition signoff :: "string \<Rightarrow> string" where
  "signoff user_name = nl @ nl @ ''Best regards,'' @ nl @ user_name"

definition endswith :: "string \<Rightarrow> string \<Rightarrow> bool" where
  "endswith s suffix = startswith (rev s) (rev suffix)"

section \<open>String facts\<close>

lemma startswith_iff: "startswith s p \<longleftrightarrow> (\<exists>r. s = p @ r)"
  by (induction s p rule: startswith.induct) auto

lemma startswith_append: "startswith (p @ r) p"
  by (simp add: startswith_iff)

lemma contains_iff: "contains sub s \<longleftrightarrow> (\<exists>a b. s = a @ sub @ b)"
proof (induction s)
  case Nil
  then show ?case by auto
next
  case (Cons c cs)
  show ?case
  proof
    assume "contains sub (c # cs)"
    then consider "startswith (c # cs) sub" | "contains sub cs" by auto
    then show "\<exists>a b. c # cs = a @ sub @ b"
    proof cases
      case 1
      then obtain r where "c # cs = sub @ r" by (auto simp: startswith_iff)
      then have "c # cs = [] @ sub @ r" by simp
      then show ?thesis by blast
    next
      case 2
      with Cons.IH obtain a b where "cs = a @ sub @ b" by blast
      then have "c # cs = (c # a) @ sub @ b" by simp
      then show ?thesis by blast
    qed
  next
    assume "\<exists>a b. c # cs = a @ sub @ b"
    then obtain a b where ab: "c # cs = a @ sub @ b" by blast
    show "contains sub (c # cs)"
    proof (cases a)
      case Nil
      with ab have "startswith (c # cs) sub" by (simp add: startswith_iff)
      then show ?thesis by simp
    next
      case (Cons x a')
      with ab have "cs = a' @ sub @ b" by simp
      with Cons.IH have "contains sub cs" by blast
      then show ?thesis by simp
    qed
  qed
qed

lemma contains_char: "contains [x] s \<longleftrightarrow> x \<in> set s"
  by (induction s) auto

lemma lower_required_model: "lower ''llama3.2:1b'' = ''llama3.2:1b''"
  by code_simp

lemma filter_required_model:
  "filter (\<lambda>model. contains ''llama3.2:1b'' (lower (dict_get model ''name'' []))) models \<noteq> []
   \<longleftrightarrow> lists_required_model models"
  by (simp only: lists_required_model_def contains_ci_def lower_required_model filter_empty_conv)
     blast

lemma model_missing_msg_names_model: "contains ''llama3.2:1b'' model_missing_msg"
  by code_simp

section \<open>The probe\<close>

lemma check_ollama_200:
  "check_ollama (Response 200 (Inr ms)) =
     (if lists_required_model (get_models ms) then (True, None) else (False, Some model_missing_msg))"
  using filter_required_model [of "get_models ms"]
  by (simp add: check_ollama_def Let_def del: filter_empty_conv)

lemma check_ollama_healthy_iff:
  "fst (check_ollama r) \<longleftrightarrow> (\<exists>ms. r = Response 200 (Inr ms) \<and> lists_required_model (get_models ms))"
proof (cases r)
  case ConnectionError
  then show ?thesis by (simp add: check_ollama_def)
next
  case (OtherException e)
  then show ?thesis by (simp add: check_ollama_def)
next
  case (Response s js)
  show ?thesis
  proof (cases "s = 200")
    case False
    with Response show ?thesis by (simp add: check_ollama_def)
  next
    case True
    show ?thesis
    proof (cases js)
      case (Inl e)
      with Response True show ?thesis by (simp add: check_ollama_def)
    next
      case (Inr ms)
      with Response True show ?thesis by (simp add: check_ollama_200)
    qed
  qed
qed

text \<open>
  C4. The probe reports healthy exactly when the model-listing call returned HTTP 200 with
  a readable model list in which some entry's name contains \<open>llama3.2:1b\<close> as a
  case-insensitive substring. A status other than 200 gives unhealthy with the status
  code in the message, a connection failure gives unhealthy with the cannot-connect
  message, and any other exception, raised by the call or while the 200 response is read,
  gives unhealthy with the exception's text.
\<close>

theorem check_ollama_spec:
  "(fst (check_ollama r) \<longleftrightarrow>
      (\<exists>ms. r = Response 200 (Inr ms) \<and> lists_required_model (get_models ms)))
   \<and> (\<forall>s js. s \<noteq> 200 \<longrightarrow>
        check_ollama (Response s js) = (False, Some (''Ollama returned status code '' @ str_int s)))
   \<and> check_ollama ConnectionError =
        (False, Some ''Cannot connect to Ollama. Please make sure Ollama is running'')
   \<and> (\<forall>e. check_ollama (OtherException e) = (False, Some (''Error checking Ollama: '' @ e)))
   \<and> (\<forall>e. check_ollama (Response 200 (Inl e)) = (False, Some (''Error checking Ollama: '' @ e)))"
  using check_ollama_healthy_iff [of r]
  by (simp add: check_ollama_def cannot_connect_msg_def)

theorem check_ollama_spec_witness:
  "fst (check_ollama (Response 200 (Inr (Some [[(''name'', ''Llama3.2:1B-instruct'')]]))))
   \<and> check_ollama (Response 404 (Inl [])) = (False, Some ''Ollama returned status code 404'')"
proof -
  let ?r = "Response 200 (Inr (Some [[(''name'', ''Llama3.2:1B-instruct'')]]))"
  have listed: "lists_required_model (get_models (Some [[(''name'', ''Llama3.2:1B-instruct'')]]))"
    by code_simp
  have code: "str_int 404 = ''404''"
    by code_simp
  have neq: "(404::int) \<noteq> 200"
    by simp
  from check_ollama_spec [of ?r] listed have "fst (check_ollama ?r)"
    by blast
  moreover from check_ollama_spec [of ?r] neq
  have "check_ollama (Response 404 (Inl [])) =
          (False, Some (''Ollama returned status code '' @ str_int 404))"
    by blast
  ultimately show ?thesis
    by (simp add: code)
qed

section \<open>The handlers, case by case\<close>

lemma not_lacks_field:
  "\<not> lacks_field data k \<longleftrightarrow> (\<exists>d c. data = object_body d \<and> map_of d k = Some c)"
  by (auto simp: lacks_field_def split: request_json.splits pyjson.splits)



lemma summarize_email_present:
  assumes "map_of d ''content'' = Some c"
  shows "summarize_email tags llm (object_body d) =
           Inr (if \<not> fst (check_ollama tags) then ([(''error'', to_json (snd (check_ollama tags)))], 503)
                else case summary_generation llm d c of
                       Inr response \<Rightarrow> ([(''summary'', JStr (strip response))], 200)
                     | Inl error_msg \<Rightarrow>
                         if contains ''Connection refused'' error_msg
                         then ([(''error'', JStr cannot_connect_msg)], 503)
                         else ([(''error'', JStr (''Error summarizing email: '' @ error_msg))], 500))"
proof -
  from assms have "d \<noteq> []" by auto
  with assms show ?thesis
    by (simp add: summarize_email_def has_key_def summary_generation_def Let_def
             split: prod.splits)
qed

lemma generate_reply_present:
  assumes "map_of d ''emailContent'' = Some c"
  shows "generate_reply tags llm (object_body d) =
           Inr (if \<not> fst (check_ollama tags) then ([(''error'', to_json (snd (check_ollama tags)))], 503)
                else case reply_generation llm d c of
                       Inr response \<Rightarrow>
                         ([(''reply'', JStr (add_signoff (resolved_signer d)
                              (add_greeting (greeting_of (resolved_recipient d)) (strip response))))], 200)
                     | Inl error_msg \<Rightarrow>
                         if contains ''Connection refused'' error_msg
                         then ([(''error'', JStr cannot_connect_msg)], 503)
                         else ([(''error'', JStr (''Error generating reply: '' @ error_msg))], 500))"
proof -
  from assms have "d \<noteq> []" by auto
  with assms show ?thesis
    unfolding reply_generation_def resolved_recipient_def resolved_signer_def
    by (simp add: generate_reply_def has_key_def Let_def split: prod.splits)
qed

text \<open>
  The no-content answer is given exactly for a decoded body that is falsy or that passes
  \<open>key in data\<close> as false: \<open>null\<close>, \<open>false\<close>, \<open>0\<close>, an empty string, list or
  object, and a string, list or object that does not contain the field name.
\<close>

lemma summarize_email_400_iff:
  "summarize_email tags llm data = Inr no_content_response \<longleftrightarrow>
     (\<exists>v. data = JsonValue v \<and> (\<not> truthy v \<or> py_in ''content'' v = Inr False))"
  by (cases data; cases "check_ollama tags")
     (auto simp: summarize_email_def no_content_response_def Let_def
           split: sum.splits pyjson.splits if_splits option.splits)

lemma generate_reply_400_iff:
  "generate_reply tags llm data = Inr no_content_response \<longleftrightarrow>
     (\<exists>v. data = JsonValue v \<and> (\<not> truthy v \<or> py_in ''emailContent'' v = Inr False))"
  by (cases data; cases "check_ollama tags")
     (auto simp: generate_reply_def no_content_response_def Let_def
           split: sum.splits pyjson.splits if_splits option.splits)




text \<open>
  C6. When the probe reports the required model absent, a POST to either generation
  endpoint that carries its required field is answered with HTTP 503 and the remediation
  message, which names the model \<open>llama3.2:1b\<close>.
\<close>

theorem model_absent_503:
  assumes "check_ollama tags = (False, Some model_missing_msg)"
  shows "(\<not> lacks_field data ''content'' \<longrightarrow>
            summarize_email tags llm data = Inr ([(''error'', JStr model_missing_msg)], 503))
         \<and> (\<not> lacks_field data ''emailContent'' \<longrightarrow>
            generate_reply tags llm data = Inr ([(''error'', JStr model_missing_msg)], 503))
         \<and> contains ''llama3.2:1b'' model_missing_msg"
  using assms
  by (auto simp: not_lacks_field summarize_email_present generate_reply_present to_json_def
                 model_missing_msg_names_model)

theorem model_absent_503_witness:
  "summarize_email (Response 200 (Inr (Some [[(''name'', ''mistral:7b'')]]))) (canned ''ok'')
       (object_body [(''content'', ''Sale ends Friday'')]) = Inr ([(''error'', JStr model_missing_msg)], 503)
   \<and> generate_reply (Response 200 (Inr (Some [[(''name'', ''mistral:7b'')]]))) (canned ''ok'')
       (object_body [(''emailContent'', ''Sale ends Friday'')]) = Inr ([(''error'', JStr model_missing_msg)], 503)"
proof -
  let ?tags = "Response 200 (Inr (Some [[(''name'', ''mistral:7b'')]]))"
  have absent: "\<not> lists_required_model (get_models (Some [[(''name'', ''mistral:7b'')]]))"
    by code_simp
  then have probe: "check_ollama ?tags = (False, Some model_missing_msg)"
    by (simp add: check_ollama_200)
  have a: "\<not> lacks_field (object_body [(''content'', ''Sale ends Friday'')]) ''content''"
    by (simp add: lacks_field_def)
  have b: "\<not> lacks_field (object_body [(''emailContent'', ''Sale ends Friday'')]) ''emailContent''"
    by (simp add: lacks_field_def)
  from model_absent_503 [OF probe, of "object_body [(''content'', ''Sale ends Friday'')]" "canned ''ok''"] a
  have "summarize_email ?tags (canned ''ok'') (object_body [(''content'', ''Sale ends Friday'')])
          = Inr ([(''error'', JStr model_missing_msg)], 503)"
    by blast
  moreover
  from model_absent_503 [OF probe, of "object_body [(''emailContent'', ''Sale ends Friday'')]" "canned ''ok''"] b
  have "generate_reply ?tags (canned ''ok'') (object_body [(''emailContent'', ''Sale ends Friday'')])
          = Inr ([(''error'', JStr model_missing_msg)], 503)"
    by blast
  ultimately show ?thesis by blast
qed

text \<open>
  C7. GET / answers HTTP 200 whatever the probe reports. GET /ollama-status answers
  HTTP 503 exactly when the probe reports the backend unhealthy, and HTTP 200 otherwise.
\<close>

theorem status_endpoints_http:
  "snd (health_check tags) = 200
   \<and> (snd (ollama_status tags) = 503 \<longleftrightarrow> \<not> fst (check_ollama tags))
   \<and> (snd (ollama_status tags) = 200 \<longleftrightarrow> fst (check_ollama tags))"
  by (simp add: health_check_def ollama_status_def jsonify_def split: prod.splits)

theorem status_endpoints_http_witness:
  "snd (health_check ConnectionError) = 200 \<and> snd (ollama_status ConnectionError) = 503
   \<and> snd (ollama_status (Response 200 (Inr (Some [[(''name'', ''llama3.2:1b'')]])))) = 200"
proof -
  have down: "\<not> fst (check_ollama ConnectionError)"
    by (simp add: check_ollama_def)
  have "lists_required_model (get_models (Some [[(''name'', ''llama3.2:1b'')]]))"
    by code_simp
  then have up: "fst (check_ollama (Response 200 (Inr (Some [[(''name'', ''llama3.2:1b'')]]))))"
    by (simp add: check_ollama_200)
  from status_endpoints_http [of ConnectionError] down
    status_endpoints_http [of "Response 200 (Inr (Some [[(''name'', ''llama3.2:1b'')]]))"] up
  show ?thesis by blast
qed

text \<open>
  C8. In either generation endpoint, when the backend generation call raises an
  exception: if the exception's message contains \<open>Connection refused\<close> the answer is
  HTTP 503 with the cannot-connect message, otherwise it is HTTP 500 with an error
  message that carries the exception's text.
\<close>

theorem generation_exception_policy:
  assumes "fst (check_ollama tags)"
  shows "(map_of d ''content'' = Some c \<and> summary_generation llm d c = Inl msg \<longrightarrow>
            summarize_email tags llm (object_body d) =
              Inr (if contains ''Connection refused'' msg
               then ([(''error'', JStr ''Cannot connect to Ollama. Please make sure Ollama is running'')], 503)
               else ([(''error'', JStr (''Error summarizing email: '' @ msg))], 500)))
         \<and> (map_of d ''emailContent'' = Some c \<and> reply_generation llm d c = Inl msg \<longrightarrow>
            generate_reply tags llm (object_body d) =
              Inr (if contains ''Connection refused'' msg
               then ([(''error'', JStr ''Cannot connect to Ollama. Please make sure Ollama is running'')], 503)
               else ([(''error'', JStr (''Error generating reply: '' @ msg))], 500)))"
  using assms
  by (simp add: summarize_email_present generate_reply_present cannot_connect_msg_def)

theorem generation_exception_policy_witness:
  "summarize_email (Response 200 (Inr (Some [[(''name'', ''llama3.2:1b'')]])))
       (failing ''[Errno 111] Connection refused'')
       (object_body [(''content'', ''Sale ends Friday''), (''emailContent'', ''Sale ends Friday'')])
     = Inr ([(''error'', JStr ''Cannot connect to Ollama. Please make sure Ollama is running'')], 503)
   \<and> generate_reply (Response 200 (Inr (Some [[(''name'', ''llama3.2:1b'')]])))
       (failing ''model not found'')
       (object_body [(''content'', ''Sale ends Friday''), (''emailContent'', ''Sale ends Friday'')])
     = Inr ([(''error'', JStr ''Error generating reply: model not found'')], 500)"
proof -
  let ?tags = "Response 200 (Inr (Some [[(''name'', ''llama3.2:1b'')]]))"
  let ?d = "[(''content'', ''Sale ends Friday''), (''emailContent'', ''Sale ends Friday'')]"
  have "lists_required_model (get_models (Some [[(''name'', ''llama3.2:1b'')]]))"
    by code_simp
  then have up: "fst (check_ollama ?tags)"
    by (simp add: check_ollama_200)
  have c1: "map_of ?d ''content'' = Some ''Sale ends Friday''"
    by simp
  have c2: "map_of ?d ''emailContent'' = Some ''Sale ends Friday''"
    by simp
  have g1: "summary_generation (failing ''[Errno 111] Connection refused'') ?d ''Sale ends Friday''
              = Inl ''[Errno 111] Connection refused''"
    by (simp add: summary_generation_def failing_def)
  have g2: "reply_generation (failing ''model not found'') ?d ''Sale ends Friday''
              = Inl ''model not found''"
    by (simp add: reply_generation_def failing_def)
  have r1: "contains ''Connection refused'' ''[Errno 111] Connection refused''"
    by code_simp
  have r2: "\<not> contains ''Connection refused'' ''model not found''"
    by code_simp
  from generation_exception_policy [OF up, of ?d "''Sale ends Friday''"
      "failing ''[Errno 111] Connection refused''" "''[Errno 111] Connection refused''"] c1 g1 r1
  have "summarize_email ?tags (failing ''[Errno 111] Connection refused'') (object_body ?d)
          = Inr ([(''error'', JStr ''Cannot connect to Ollama. Please make sure Ollama is running'')], 503)"
    by presburger
  moreover
  from generation_exception_policy [OF up, of ?d "''Sale ends Friday''"
      "failing ''model not found''" "''model not found''"] c2 g2 r2
  have "generate_reply ?tags (failing ''model not found'') (object_body ?d)
          = Inr ([(''error'', JStr (''Error generating reply: '' @ ''model not found''))], 500)"
    by presburger
  ultimately show ?thesis
    by simp
qed




section \<open>Reply post-processing\<close>

lemma endswith_iff: "endswith s suffix \<longleftrightarrow> (\<exists>pre. s = pre @ suffix)"
proof
  assume "endswith s suffix"
  then obtain r where "rev s = rev suffix @ r"
    by (auto simp: endswith_def startswith_iff)
  then have "rev (rev s) = rev (rev suffix @ r)" by simp
  then have "s = rev r @ suffix" by simp
  then show "\<exists>pre. s = pre @ suffix" by blast
next
  assume "\<exists>pre. s = pre @ suffix"
  then show "endswith s suffix"
    by (auto simp: endswith_def startswith_iff)
qed

lemma startswith_append_sep: "x \<notin> set p \<Longrightarrow> startswith (a @ x # b) p \<longleftrightarrow> startswith a p"
  by (induction a p rule: startswith.induct) auto

lemma contains_append_sep:
  assumes "x \<notin> set sub"
  shows "contains sub (a @ x # b) \<longleftrightarrow> contains sub a \<or> contains sub b"
proof (induction a)
  case Nil
  from assms show ?case by (cases sub) auto
next
  case (Cons c a)
  from assms have "startswith ((c # a) @ x # b) sub \<longleftrightarrow> startswith (c # a) sub"
    by (rule startswith_append_sep)
  with Cons show ?case by auto
qed

lemma lower_char_nl: "lower_char (CHR 0x0A) = CHR 0x0A"
  by code_simp

lemma contains_ci_paragraphs:
  assumes "CHR 0x0A \<notin> set (lower tok)" and "tok \<noteq> []"
  shows "contains_ci tok (g @ nl @ nl @ t) \<longleftrightarrow> contains_ci tok g \<or> contains_ci tok t"
proof -
  have ne: "lower tok \<noteq> []"
    using assms(2) by (simp add: lower_def)
  have "lower (g @ nl @ nl @ t) = lower g @ CHR 0x0A # ([] @ CHR 0x0A # lower t)"
    by (simp add: lower_def nl_def lower_char_nl)
  then have "contains_ci tok (g @ nl @ nl @ t) \<longleftrightarrow>
               contains (lower tok) (lower g) \<or> contains (lower tok) [] \<or> contains (lower tok) (lower t)"
    unfolding contains_ci_def
    by (simp only: contains_append_sep [OF assms(1)])
  with ne show ?thesis
    by (simp add: contains_ci_def)
qed

lemma has_closing_token_paragraphs:
  "has_closing_token (g @ nl @ nl @ t) \<longleftrightarrow> has_closing_token g \<or> has_closing_token t"
proof -
  have "CHR 0x0A \<notin> set (lower ''regards'')" "CHR 0x0A \<notin> set (lower ''sincerely'')"
       "CHR 0x0A \<notin> set (lower ''best'')"
    by code_simp+
  then show ?thesis
    unfolding has_closing_token_def
    by (subst (1 2 3) contains_ci_paragraphs) auto
qed

lemma closing_tokens_lower:
  "lower ''regards'' = ''regards''" "lower ''sincerely'' = ''sincerely''" "lower ''best'' = ''best''"
  by code_simp+

lemma add_signoff_alt:
  "add_signoff user_name reply = (if has_closing_token reply then reply else reply @ signoff user_name)"
  by (simp add: add_signoff_def has_closing_token_def contains_ci_def closing_tokens_lower signoff_def)

lemma add_greeting_alt:
  "add_greeting greeting reply =
     (if has_greeting_token reply then reply else greeting @ nl @ nl @ reply)"
  by (simp add: add_greeting_def has_greeting_token_def)

lemma startswith_add_signoff:
  "startswith reply p \<Longrightarrow> startswith (add_signoff user_name reply) p"
  by (auto simp: add_signoff_alt startswith_iff)

text \<open>
  For a generated text without closing token, the sign-off is appended unless the
  greeting the handler itself put in front carries one.
\<close>

lemma postprocess_signoff:
  assumes "\<not> has_closing_token t"
  shows "add_signoff user_name (add_greeting greeting t) =
           (if \<not> has_greeting_token t \<and> has_closing_token greeting
            then greeting @ nl @ nl @ t
            else add_greeting greeting t @ signoff user_name)"
  using assms
  by (simp add: add_signoff_alt add_greeting_alt has_closing_token_paragraphs)

text \<open>
  C3. For a generate-reply request answered with a generated text that, once trimmed, does
  not start with \<open>Hi\<close>, \<open>Hello\<close> or \<open>Dear\<close>, the returned reply starts with the
  greeting made from the resolved recipient name, \<open>Hi <name>,\<close>, or with \<open>Hello,\<close>
  when no name was resolved.
\<close>

theorem greeting_prepended:
  assumes "map_of d ''emailContent'' = Some c"
    and "fst (check_ollama tags)"
    and "reply_generation llm d c = Inr response"
    and "\<not> startswith (strip response) ''Hi''"
    and "\<not> startswith (strip response) ''Hello''"
    and "\<not> startswith (strip response) ''Dear''"
  shows "\<exists>reply. generate_reply tags llm (object_body d) = Inr ([(''reply'', JStr reply)], 200)
           \<and> startswith reply
                (if resolved_recipient d \<noteq> [] then ''Hi '' @ resolved_recipient d @ '','' else ''Hello,'')"
proof -
  let ?g = "greeting_of (resolved_recipient d)"
  let ?reply = "add_signoff (resolved_signer d) (add_greeting ?g (strip response))"
  from assms(4-6) have "add_greeting ?g (strip response) = ?g @ nl @ nl @ strip response"
    by (simp add: add_greeting_def)
  then have "startswith (add_greeting ?g (strip response)) ?g"
    by (simp add: startswith_append)
  then have sw: "startswith ?reply ?g"
    by (rule startswith_add_signoff)
  have geq: "(if resolved_recipient d \<noteq> [] then ''Hi '' @ resolved_recipient d @ '','' else ''Hello,'') = ?g"
    by (simp add: greeting_of_def)
  from assms(1-3) have gen: "generate_reply tags llm (object_body d) = Inr ([(''reply'', JStr ?reply)], 200)"
    by (simp add: generate_reply_present)
  show ?thesis
  proof (intro exI conjI)
    show "generate_reply tags llm (object_body d) = Inr ([(''reply'', JStr ?reply)], 200)"
      by (rule gen)
    show "startswith ?reply
            (if resolved_recipient d \<noteq> [] then ''Hi '' @ resolved_recipient d @ '','' else ''Hello,'')"
      by (subst geq) (rule sw)
  qed
qed

theorem greeting_prepended_witness:
  "\<exists>reply. generate_reply (Response 200 (Inr (Some [[(''name'', ''llama3.2:1b'')]])))
              (canned ''Thanks for the update.'')
              (object_body [(''emailContent'', ''Status?''), (''sender'', ''Jane Doe <jane@x.com>'')])
            = Inr ([(''reply'', JStr reply)], 200)
          \<and> startswith reply ''Hi Jane Doe,''"
proof -
  let ?tags = "Response 200 (Inr (Some [[(''name'', ''llama3.2:1b'')]]))"
  let ?d = "[(''emailContent'', ''Status?''), (''sender'', ''Jane Doe <jane@x.com>'')]"
  have "lists_required_model (get_models (Some [[(''name'', ''llama3.2:1b'')]]))"
    by code_simp
  then have up: "fst (check_ollama ?tags)"
    by (simp add: check_ollama_200)
  have c: "map_of ?d ''emailContent'' = Some ''Status?''"
    by simp
  have g: "reply_generation (canned ''Thanks for the update.'') ?d ''Status?'' = Inr ''Thanks for the update.''"
    by (simp add: reply_generation_def canned_def)
  have s: "strip ''Thanks for the update.'' = ''Thanks for the update.''"
    by code_simp
  have n: "\<not> startswith (strip ''Thanks for the update.'') ''Hi''"
          "\<not> startswith (strip ''Thanks for the update.'') ''Hello''"
          "\<not> startswith (strip ''Thanks for the update.'') ''Dear''"
    by (simp_all add: s)
  have r: "resolved_recipient ?d = ''Jane Doe''"
    by code_simp
  from greeting_prepended [OF c up g n] show ?thesis
    by (simp add: r)
qed

text \<open>
  C9. For a generate-reply request without \<open>recipientName\<close> whose \<open>sender\<close> is
  \<open>Jane Doe <jane@x.com>\<close>, the resolved recipient name is \<open>Jane Doe\<close>.
\<close>

theorem recipient_from_sender_display_name:
  assumes "map_of d ''recipientName'' = None"
    and "map_of d ''sender'' = Some ''Jane Doe <jane@x.com>''"
  shows "resolved_recipient d = ''Jane Doe''"
proof -
  have "sender_name_of [] ''Jane Doe <jane@x.com>'' = ''Jane Doe''"
    by code_simp
  with assms show ?thesis
    by (simp add: resolved_recipient_def dict_get_def)
qed

theorem recipient_from_sender_display_name_witness:
  "resolved_recipient [(''emailContent'', ''Status?''), (''sender'', ''Jane Doe <jane@x.com>'')]
     = ''Jane Doe''"
proof -
  let ?d = "[(''emailContent'', ''Status?''), (''sender'', ''Jane Doe <jane@x.com>'')]"
  have a: "map_of ?d ''recipientName'' = None"
    by simp
  have b: "map_of ?d ''sender'' = Some ''Jane Doe <jane@x.com>''"
    by simp
  from recipient_from_sender_display_name [OF a b] show ?thesis .
qed

section \<open>The signer name and the sign-off\<close>

lemma user_name_of_local_part:
  "user_name_of e = (case local_part e of Some l \<Rightarrow> capitalize l | None \<Rightarrow> ''Me'')"
  by (auto simp: user_name_of_def local_part_def contains_char split_first_def Let_def)

lemma user_name_of_default: "user_name_of ''user@example.com'' = ''User''"
  by code_simp

lemma user_name_of_bob: "user_name_of ''bob@x.com'' = ''Bob''"
  by code_simp

text \<open>
  C2. In generate-reply the signer name is the capitalized local part of \<open>userEmail\<close>
  (the text before \<open>@\<close>) and is \<open>Me\<close> when there is no such local part; for
  \<open>bob@x.com\<close> it is \<open>Bob\<close>. The handler reads \<open>userEmail\<close> with the default
  \<open>user@example.com\<close>, so the request below, which has no \<open>userEmail\<close> and hence no
  local part of its own, is signed \<open>User\<close> and not \<open>Me\<close>.
\<close>

theorem signer_without_userEmail_counterexample:
  "request_local_part [(''emailContent'', ''Hello'')] = None
   \<and> resolved_signer [(''emailContent'', ''Hello'')] \<noteq> ''Me''
   \<and> generate_reply (Response 200 (Inr (Some [[(''name'', ''llama3.2:1b'')]]))) (canned ''Thanks.'')
         (object_body [(''emailContent'', ''Hello'')])
       = Inr ([(''reply'', JStr (''Hello,'' @ nl @ nl @ ''Thanks.'' @ nl @ nl @ ''Best regards,'' @ nl @ ''User''))], 200)"
  by code_simp

text \<open>
  C2, as the handler has it. The signer name is the capitalized local part of the
  effective address, which is the request's \<open>userEmail\<close> or \<open>user@example.com\<close> when
  the field is absent, and \<open>Me\<close> when that address has no local part. So a request
  whose \<open>userEmail\<close> is present without a local part is signed \<open>Me\<close>, a request
  without \<open>userEmail\<close> is signed \<open>User\<close>, and \<open>bob@x.com\<close> gives \<open>Bob\<close>.
\<close>

theorem signer_resolution:
  "resolved_signer d =
     (case local_part (dict_get d ''userEmail'' ''user@example.com'') of
        Some l \<Rightarrow> capitalize l | None \<Rightarrow> ''Me'')
   \<and> (map_of d ''userEmail'' \<noteq> None \<and> request_local_part d = None \<longrightarrow> resolved_signer d = ''Me'')
   \<and> (map_of d ''userEmail'' = None \<longrightarrow> resolved_signer d = ''User'')
   \<and> (map_of d ''userEmail'' = Some ''bob@x.com'' \<longrightarrow> resolved_signer d = ''Bob'')"
proof (intro conjI impI)
  show "resolved_signer d =
          (case local_part (dict_get d ''userEmail'' ''user@example.com'') of
             Some l \<Rightarrow> capitalize l | None \<Rightarrow> ''Me'')"
    by (simp add: resolved_signer_def user_name_of_local_part)
next
  assume "map_of d ''userEmail'' \<noteq> None \<and> request_local_part d = None"
  then obtain e where "map_of d ''userEmail'' = Some e" and "local_part e = None"
    by (auto simp: request_local_part_def)
  then show "resolved_signer d = ''Me''"
    by (simp add: resolved_signer_def dict_get_def user_name_of_local_part)
next
  assume "map_of d ''userEmail'' = None"
  then show "resolved_signer d = ''User''"
    by (simp add: resolved_signer_def dict_get_def user_name_of_default)
next
  assume "map_of d ''userEmail'' = Some ''bob@x.com''"
  then show "resolved_signer d = ''Bob''"
    by (simp add: resolved_signer_def dict_get_def user_name_of_bob)
qed

theorem signer_resolution_witness:
  "resolved_signer [(''emailContent'', ''Hello''), (''userEmail'', ''bob@x.com'')] = ''Bob''
   \<and> resolved_signer [(''emailContent'', ''Hello''), (''userEmail'', ''nobody'')] = ''Me''
   \<and> resolved_signer [(''emailContent'', ''Hello'')] = ''User''"
proof -
  let ?bob = "[(''emailContent'', ''Hello''), (''userEmail'', ''bob@x.com'')]"
  let ?nobody = "[(''emailContent'', ''Hello''), (''userEmail'', ''nobody'')]"
  let ?absent = "[(''emailContent'', ''Hello'')]"
  have a: "map_of ?bob ''userEmail'' = Some ''bob@x.com''"
    by simp
  have b: "map_of ?nobody ''userEmail'' \<noteq> None \<and> request_local_part ?nobody = None"
    by code_simp
  have c: "map_of ?absent ''userEmail'' = None"
    by simp
  from signer_resolution [of ?bob] a have "resolved_signer ?bob = ''Bob''"
    by blast
  moreover from signer_resolution [of ?nobody] b have "resolved_signer ?nobody = ''Me''"
    by blast
  moreover from signer_resolution [of ?absent] c have "resolved_signer ?absent = ''User''"
    by blast
  ultimately show ?thesis
    by blast
qed

text \<open>
  When the generated text has no closing token and the greeting put in front of it has
  none either (or no greeting is put in front), the returned reply ends with the sign-off
  for the resolved signer.
\<close>

lemma signoff_appended_when_greeting_clean:
  assumes "map_of d ''emailContent'' = Some c"
    and "fst (check_ollama tags)"
    and "reply_generation llm d c = Inr response"
    and "\<not> has_closing_token (strip response)"
    and "has_greeting_token (strip response) \<or> \<not> has_closing_token (greeting_of (resolved_recipient d))"
  shows "\<exists>reply. generate_reply tags llm (object_body d) = Inr ([(''reply'', JStr reply)], 200)
           \<and> endswith reply (signoff (resolved_signer d))"
proof -
  let ?g = "greeting_of (resolved_recipient d)"
  let ?reply = "add_signoff (resolved_signer d) (add_greeting ?g (strip response))"
  from assms(4,5) have "?reply = add_greeting ?g (strip response) @ signoff (resolved_signer d)"
    by (auto simp: postprocess_signoff)
  then have e: "endswith ?reply (signoff (resolved_signer d))"
    unfolding endswith_iff by (rule exI)
  from assms(1-3) have gen: "generate_reply tags llm (object_body d) = Inr ([(''reply'', JStr ?reply)], 200)"
    by (simp add: generate_reply_present)
  show ?thesis
  proof (intro exI conjI)
    show "generate_reply tags llm (object_body d) = Inr ([(''reply'', JStr ?reply)], 200)"
      by (rule gen)
    show "endswith ?reply (signoff (resolved_signer d))"
      by (rule e)
  qed
qed

text \<open>
  C1. For every generate-reply request whose generated text contains none of
  \<open>regards\<close>, \<open>sincerely\<close>, \<open>best\<close> in any letter case, the returned reply ends with
  a sign-off containing the resolved signer name. The handler looks for the closing
  tokens after it has put its own greeting in front, so a recipient name that carries a
  token suppresses the sign-off: for sender \<open>Best Buy <deals@bestbuy.com>\<close>, signer
  \<open>Bob\<close> and the generated text \<open>Thanks for the offer.\<close>, which has no closing token,
  the reply is the greeting and the text, with no sign-off and no signer name.
\<close>

theorem signoff_skipped_after_greeting:
  "\<not> has_closing_token ''Thanks for the offer.''
   \<and> resolved_signer [(''emailContent'', ''Sale ends Friday''),
                       (''sender'', ''Best Buy <deals@bestbuy.com>''),
                       (''userEmail'', ''bob@x.com'')] = ''Bob''
   \<and> generate_reply (Response 200 (Inr (Some [[(''name'', ''llama3.2:1b'')]])))
         (canned ''Thanks for the offer.'')
         (object_body [(''emailContent'', ''Sale ends Friday''),
                (''sender'', ''Best Buy <deals@bestbuy.com>''),
                (''userEmail'', ''bob@x.com'')])
       = Inr ([(''reply'', JStr (''Hi Best Buy,'' @ nl @ nl @ ''Thanks for the offer.''))], 200)
   \<and> \<not> endswith (''Hi Best Buy,'' @ nl @ nl @ ''Thanks for the offer.'') (signoff ''Bob'')
   \<and> \<not> contains ''Bob'' (''Hi Best Buy,'' @ nl @ nl @ ''Thanks for the offer.'')"
  by code_simp

end
